theory Spec2Isabelle
  imports Complex_Main
begin

section \<open>Float64 values, their arithmetic, and Python exceptions\<close>

text \<open>
  The library computes on numpy float64 arrays. A float is the real number it denotes
  (\<open>Fin\<close>) or one of the special values of IEEE 754. The four arithmetic operations
  and the square root are correctly rounded, as IEEE 754 requires: the exact result is
  rounded to the nearest float64, ties to the even significand (\<open>f64_round\<close>), with
  gradual underflow and overflow to infinity. The sign of a zero is not represented (a zero
  divisor counts as positive zero). Comparison, negation and absolute value are exact.
\<close>

datatype fl = Fin real | PInf | NInf | NaN

definition round_even :: "real \<Rightarrow> int" where
  "round_even q =
     (let f = \<lfloor>q\<rfloor>
      in if q - of_int f < 1 / 2 then f
         else if 1 / 2 < q - of_int f then f + 1
         else if even f then f else f + 1)"

text \<open>
  The exponent of the unit in the last place at \<open>x\<close>: 52 below the binary exponent of
  \<open>x\<close>, and \<open>-1074\<close> in the subnormal range.
\<close>

definition f64_expo :: "real \<Rightarrow> int" where
  "f64_expo x = max (\<lfloor>log 2 \<bar>x\<bar>\<rfloor> - 52) (- 1074)"

definition f64_round :: "real \<Rightarrow> fl" where
  "f64_round x =
     (if x = 0 then Fin 0
      else
        let e = f64_expo x;
            y = of_int (round_even (x / 2 powr of_int e)) * 2 powr of_int e
        in if 2 powr 1024 \<le> \<bar>y\<bar> then (if 0 < y then PInf else NInf) else Fin y)"

fun fisnan :: "fl \<Rightarrow> bool" where
  "fisnan NaN = True"
| "fisnan _ = False"

fun fneg :: "fl \<Rightarrow> fl" where
  "fneg (Fin a) = Fin (- a)"
| "fneg PInf = NInf"
| "fneg NInf = PInf"
| "fneg NaN = NaN"

fun fabs :: "fl \<Rightarrow> fl" where
  "fabs (Fin a) = Fin \<bar>a\<bar>"
| "fabs PInf = PInf"
| "fabs NInf = PInf"
| "fabs NaN = NaN"

fun fadd :: "fl \<Rightarrow> fl \<Rightarrow> fl" where
  "fadd (Fin a) (Fin b) = f64_round (a + b)"
| "fadd NaN _ = NaN"
| "fadd _ NaN = NaN"
| "fadd PInf NInf = NaN"
| "fadd NInf PInf = NaN"
| "fadd PInf _ = PInf"
| "fadd _ PInf = PInf"
| "fadd NInf _ = NInf"
| "fadd _ NInf = NInf"

definition fsub :: "fl \<Rightarrow> fl \<Rightarrow> fl" where
  "fsub a b = fadd a (fneg b)"

definition inf_signed :: "real \<Rightarrow> fl" where
  "inf_signed s = (if 0 < s then PInf else if s < 0 then NInf else NaN)"

fun fmul :: "fl \<Rightarrow> fl \<Rightarrow> fl" where
  "fmul (Fin a) (Fin b) = f64_round (a * b)"
| "fmul NaN _ = NaN"
| "fmul _ NaN = NaN"
| "fmul (Fin a) PInf = inf_signed a"
| "fmul (Fin a) NInf = inf_signed (- a)"
| "fmul PInf (Fin b) = inf_signed b"
| "fmul NInf (Fin b) = inf_signed (- b)"
| "fmul PInf PInf = PInf"
| "fmul NInf NInf = PInf"
| "fmul PInf NInf = NInf"
| "fmul NInf PInf = NInf"

fun fdiv :: "fl \<Rightarrow> fl \<Rightarrow> fl" where
  "fdiv (Fin a) (Fin b) = (if b \<noteq> 0 then f64_round (a / b) else inf_signed a)"
| "fdiv NaN _ = NaN"
| "fdiv _ NaN = NaN"
| "fdiv (Fin a) _ = Fin 0"
| "fdiv PInf (Fin b) = (if 0 \<le> b then PInf else NInf)"
| "fdiv NInf (Fin b) = (if 0 \<le> b then NInf else PInf)"
| "fdiv _ _ = NaN"

fun fsqrt :: "fl \<Rightarrow> fl" where
  "fsqrt (Fin a) = (if a < 0 then NaN else f64_round (sqrt a))"
| "fsqrt PInf = PInf"
| "fsqrt _ = NaN"

text \<open>Comparison as numpy does it: every comparison with NaN is false.\<close>

fun fless :: "fl \<Rightarrow> fl \<Rightarrow> bool" where
  "fless (Fin a) (Fin b) = (a < b)"
| "fless NaN _ = False"
| "fless _ NaN = False"
| "fless _ NInf = False"
| "fless PInf _ = False"
| "fless _ _ = True"


datatype py_error =
  TypeError | ValueError | IndexError | KeyError | NameError | AttributeError
  | AssertionError | RuntimeError

section \<open>pyrf.mean_bins and pyrf.median_bins\<close>

text \<open>
  \<^verbatim>\<open>np.sort\<close> on floats: ascending, NaN last. The order used is \<open>sort_le\<close>.
\<close>

fun sort_le :: "fl \<Rightarrow> fl \<Rightarrow> bool" where
  "sort_le _ NaN = True"
| "sort_le NaN _ = False"
| "sort_le a b = (\<not> fless b a)"

fun np_insort :: "fl \<Rightarrow> fl list \<Rightarrow> fl list" where
  "np_insort a [] = [a]"
| "np_insort a (b # bs) = (if sort_le a b then a # b # bs else b # np_insort a bs)"

definition np_sort :: "fl list \<Rightarrow> fl list" where
  "np_sort xs = foldr np_insort xs []"

text \<open>
  \<^verbatim>\<open>np.linspace(start, stop, num)\<close> with the end point included, for \<open>num = n + 1\<close>,
  as numpy computes it: \<^verbatim>\<open>delta = stop - start\<close>, \<^verbatim>\<open>step = delta / div\<close> with
  \<^verbatim>\<open>div = num - 1\<close>, \<^verbatim>\<open>y = arange(0, num) * step\<close> (or \<^verbatim>\<open>(y / div) * delta\<close> when the
  step is zero, and \<^verbatim>\<open>y * delta\<close> when \<^verbatim>\<open>div\<close> is zero), then \<^verbatim>\<open>y += start\<close>, and
  the last entry is overwritten by \<^verbatim>\<open>stop\<close> when \<^verbatim>\<open>num > 1\<close>. Every operation rounds.
\<close>

definition linspace_at :: "fl \<Rightarrow> fl \<Rightarrow> nat \<Rightarrow> nat \<Rightarrow> fl" where
  "linspace_at start stop n k =
     (let delta = fsub stop start
      in if n = 0 then fadd (fmul (Fin (real k)) delta) start
         else if k = n then stop
         else
           let step = fdiv delta (Fin (real n))
           in if step = Fin 0 then fadd (fmul (fdiv (Fin (real k)) (Fin (real n))) delta) start
              else fadd (fmul (Fin (real k)) step) start)"

definition linspace :: "fl \<Rightarrow> fl \<Rightarrow> nat \<Rightarrow> fl list" where
  "linspace start stop n = map (linspace_at start stop n) [0..<Suc n]"

text \<open>
  The boolean mask \<^verbatim>\<open>idx_l * idx_r\<close> of one bin, as the list of selected indices, and
  \<^verbatim>\<open>np.abs(y[idx_l * idx_r])\<close>.
\<close>

definition bin_idx :: "fl list \<Rightarrow> fl list \<Rightarrow> nat \<Rightarrow> nat list" where
  "bin_idx x x_edge i =
     filter (\<lambda>j. fless (x_edge ! i) (x ! j) \<and> fless (x ! j) (x_edge ! Suc i)) [0..<length x]"

definition y_bins :: "fl list \<Rightarrow> fl list \<Rightarrow> fl list \<Rightarrow> nat \<Rightarrow> fl list" where
  "y_bins x y x_edge i = map (\<lambda>j. fabs (y ! j)) (bin_idx x x_edge i)"

definition np_diff :: "fl list \<Rightarrow> fl list" where
  "np_diff xs = map (\<lambda>k. fsub (xs ! Suc k) (xs ! k)) [0..<length xs - 1]"

text \<open>
  \<^verbatim>\<open>np.median\<close> of a 1-D array: NaN when the array is empty or holds a NaN, the middle
  entry of the sorted array, or the mean of the two middle entries.
\<close>

definition np_median :: "fl list \<Rightarrow> fl" where
  "np_median xs =
     (let s = np_sort xs; n = length xs
      in if n = 0 then NaN
         else if fisnan (last s) then NaN
         else if odd n then s ! (n div 2)
         else fdiv (fadd (s ! (n div 2 - 1)) (s ! (n div 2))) (Fin 2))"

text \<open>
  The reductions \<^verbatim>\<open>np.mean\<close> and \<^verbatim>\<open>np.std\<close> are parameters of the model
  (\<open>np_mean\<close>, \<open>np_std\<close>: a 1-D array to a float), because the order in which numpy
  adds the entries depends on the length of the array. \<open>seq_mean\<close> and \<open>seq_std\<close>
  are what they compute on an array of fewer than eight entries, which numpy adds from
  left to right.
\<close>

definition seq_mean :: "fl list \<Rightarrow> fl" where
  "seq_mean xs = fdiv (foldl fadd (Fin 0) xs) (Fin (real (length xs)))"

definition seq_std :: "fl list \<Rightarrow> fl" where
  "seq_std xs =
     (let mu = seq_mean xs
      in fsqrt (seq_mean (map (\<lambda>v. let d = fsub v mu in fmul d d) xs)))"

definition bin_centres :: "fl list \<Rightarrow> fl list" where
  "bin_centres x_edge =
     map (\<lambda>e. fadd e (fdiv (np_median (np_diff x_edge)) (Fin 2))) (butlast x_edge)"

record bins_out =
  out_bins :: "fl list"
  out_data :: "fl list"
  out_sigma :: "fl list"

text \<open>
  The shared body of both functions after the argument checks; \<open>agg\<close> is \<^verbatim>\<open>np.mean\<close>
  in \<^verbatim>\<open>mean_bins\<close> and \<^verbatim>\<open>np.median\<close> in \<^verbatim>\<open>median_bins\<close>. \<open>x\<close> and \<open>y\<close> are the 1-D
  \<^verbatim>\<open>.data\<close> arrays. \<^verbatim>\<open>x_sort[0]\<close> raises IndexError on an empty array, a boolean mask
  of another length than \<open>y\<close> raises IndexError, and a negative \<open>bins\<close> makes
  \<^verbatim>\<open>np.linspace\<close> or \<^verbatim>\<open>np.zeros\<close> raise ValueError.
\<close>

definition bins_body ::
  "(fl list \<Rightarrow> fl) \<Rightarrow> (fl list \<Rightarrow> fl) \<Rightarrow> fl list \<Rightarrow> fl list \<Rightarrow> int
     \<Rightarrow> py_error + bins_out" where
  "bins_body agg np_std x y bins =
     (if x = [] then Inl IndexError
      else if bins < 0 then Inl ValueError
      else if 0 < bins \<and> length y \<noteq> length x then Inl IndexError
      else
        let x_sort = np_sort x;
            n = nat bins;
            x_edge = linspace (hd x_sort) (last x_sort) n;
            m = map (\<lambda>i. agg (y_bins x y x_edge i)) [0..<n];
            s = map (\<lambda>i. np_std (y_bins x y x_edge i)) [0..<n]
        in Inr \<lparr>out_bins = bin_centres x_edge, out_data = m, out_sigma = s\<rparr>)"

text \<open>
  \<^verbatim>\<open>mean_bins(x, y, bins)\<close>: \<open>x\<close> and \<open>y\<close> are \<open>None\<close> or the data of a DataArray;
  the asserts reject a missing \<open>x\<close>. It returns the tuple \<^verbatim>\<open>bins, m, out\<close>.
\<close>

definition mean_bins ::
  "(fl list \<Rightarrow> fl) \<Rightarrow> (fl list \<Rightarrow> fl) \<Rightarrow> fl list option \<Rightarrow> fl list option \<Rightarrow> int
     \<Rightarrow> py_error + (fl list \<times> fl list \<times> bins_out)" where
  "mean_bins np_mean np_std x y bins =
     (case x of
        None \<Rightarrow> Inl AssertionError
      | Some xd \<Rightarrow>
          (case bins_body np_mean np_std xd (case y of None \<Rightarrow> xd | Some yd \<Rightarrow> yd) bins of
             Inl e \<Rightarrow> Inl e
           | Inr out \<Rightarrow> Inr (out_bins out, out_data out, out)))"

text \<open>\<^verbatim>\<open>median_bins(x, y, bins)\<close>: a missing \<open>x\<close> raises ValueError; it returns the Dataset.\<close>

definition median_bins ::
  "(fl list \<Rightarrow> fl) \<Rightarrow> fl list option \<Rightarrow> fl list option \<Rightarrow> int \<Rightarrow> py_error + bins_out" where
  "median_bins np_std x y bins =
     (case x of
        None \<Rightarrow> Inl ValueError
      | Some xd \<Rightarrow>
          bins_body np_median np_std xd (case y of None \<Rightarrow> xd | Some yd \<Rightarrow> yd) bins)"

text \<open>The input \<^verbatim>\<open>x = [0.0, 7.4e-323]\<close>: the second entry is 15 units of the subnormal range.\<close>

definition subnormal_x :: "fl list" where
  "subnormal_x = [Fin 0, Fin (15 * 2 powr (- 1074))]"

text \<open>A finite entry of an input array is a float64 value: rounding leaves it as it is.\<close>

definition is_f64 :: "fl \<Rightarrow> bool" where
  "is_f64 v = (case v of Fin r \<Rightarrow> f64_round r = Fin r | _ \<Rightarrow> True)"

section \<open>Labeled arrays, pyrf.time_clip and pyrf.norm\<close>

text \<open>
  An \<^verbatim>\<open>xarray.DataArray\<close> time series. \<open>da_time\<close> is the coordinate \<^verbatim>\<open>time\<close>
  (datetime64 values, as integers) that indexes the first axis, \<open>da_data\<close> holds one
  entry per index of the first axis (the sub-array at that time), \<open>da_dims\<close> are the
  names of the axes (the first one is \<^verbatim>\<open>time\<close>) and \<open>da_coords\<close> are the
  coordinates other than \<^verbatim>\<open>time\<close>, in the order of \<^verbatim>\<open>inp.coords\<close>. A coordinate
  has its own attributes. Attribute dictionaries are association lists.
\<close>

record ('c, 'w) coord =
  coord_data :: 'c
  coord_attrs :: "(string \<times> 'w) list"

record ('v, 'c, 'w) dataarray =
  da_time :: "int list"
  da_time_attrs :: "(string \<times> 'w) list"
  da_data :: "'v list"
  da_dims :: "string list"
  da_coords :: "(string \<times> ('c, 'w) coord) list"
  da_attrs :: "(string \<times> 'w) list"

text \<open>The loops of \<^verbatim>\<open>bisect.bisect_left\<close> and \<^verbatim>\<open>bisect.bisect_right\<close>.\<close>

function bisect_left_loop :: "int list \<Rightarrow> int \<Rightarrow> nat \<Rightarrow> nat \<Rightarrow> nat" where
  "bisect_left_loop a x lo hi =
     (if lo < hi then
        (let mid = (lo + hi) div 2
         in if a ! mid < x then bisect_left_loop a x (mid + 1) hi
            else bisect_left_loop a x lo mid)
      else lo)"
  by pat_completeness auto
termination
  by (relation "measure (\<lambda>(a, x, lo, hi). hi - lo)") auto

function bisect_right_loop :: "int list \<Rightarrow> int \<Rightarrow> nat \<Rightarrow> nat \<Rightarrow> nat" where
  "bisect_right_loop a x lo hi =
     (if lo < hi then
        (let mid = (lo + hi) div 2
         in if x < a ! mid then bisect_right_loop a x lo mid
            else bisect_right_loop a x (mid + 1) hi)
      else lo)"
  by pat_completeness auto
termination
  by (relation "measure (\<lambda>(a, x, lo, hi). hi - lo)") auto

declare bisect_left_loop.simps [simp del] bisect_right_loop.simps [simp del]

definition bisect_left :: "int list \<Rightarrow> int \<Rightarrow> nat" where
  "bisect_left a x = bisect_left_loop a x 0 (length a)"

definition bisect_right :: "int list \<Rightarrow> int \<Rightarrow> nat" where
  "bisect_right a x = bisect_right_loop a x 0 (length a)"

text \<open>The slice \<^verbatim>\<open>a[i:j]\<close> for indices within \<open>0 .. len(a)\<close>; it is empty when \<open>j \<le> i\<close>.\<close>

definition py_slice :: "nat \<Rightarrow> nat \<Rightarrow> 'a list \<Rightarrow> 'a list" where
  "py_slice i j xs = take (j - i) (drop i xs)"

text \<open>
  The arguments as Python passes them. \<open>inp\<close> is \<open>None\<close>, a DataArray or any other
  object. \<open>tint\<close> is a DataArray, a numpy array (its elements are \<^verbatim>\<open>numpy.datetime64\<close>
  scalars, \<^verbatim>\<open>datetime.datetime\<close> objects or something else), a list of strings, or any
  other object. A time value is a \<^verbatim>\<open>datetime.datetime\<close> (microseconds) or a
  \<^verbatim>\<open>numpy.datetime64\<close> (nanoseconds).
\<close>

datatype ('v, 'c, 'w) py_inp = InpNone | InpDataArray "('v, 'c, 'w) dataarray" | InpOther

datatype nd_elem = Datetime64 int | PyDatetime int | OtherElem

datatype ('v, 'c, 'w) py_tint =
  TintDataArray "('v, 'c, 'w) dataarray" | TintNdarray "nd_elem list" | TintList "string list"
  | TintOther

datatype py_time = PyDT int | NpDT64 int

text \<open>
  \<^verbatim>\<open>coord = [inp.time.data[idx_min:idx_max]]\<close> followed by the loop over
  \<^verbatim>\<open>inp.dims[1:]\<close>, which runs only when \<^verbatim>\<open>len(inp.coords) > 1\<close>: the data of the
  coordinate of each further axis, KeyError when an axis has no coordinate. The time
  entry is kept apart, so the result lists the entries after it.
\<close>

fun collect_coords :: "(string \<times> ('c, 'w) coord) list \<Rightarrow> string list \<Rightarrow> py_error + 'c list" where
  "collect_coords cs [] = Inr []"
| "collect_coords cs (k # ks) =
     (case map_of cs k of
        None \<Rightarrow> Inl KeyError
      | Some c \<Rightarrow> (case collect_coords cs ks of Inl e \<Rightarrow> Inl e | Inr ds \<Rightarrow> Inr (coord_data c # ds)))"

text \<open>
  \<^verbatim>\<open>xr.DataArray(data, coords=coord, dims=inp.dims, attrs=inp.attrs)\<close> with a list of
  coordinate arrays: it raises ValueError unless there is one coordinate per axis, names
  the coordinates after the axes, and gives them no attributes. The next statement,
  \<^verbatim>\<open>out.time.attrs = inp.time.attrs\<close>, is the \<open>da_time_attrs\<close> field here.
\<close>

definition build_clipped ::
  "('v, 'c, 'w) dataarray \<Rightarrow> nat \<Rightarrow> nat \<Rightarrow> 'c list \<Rightarrow> py_error + ('v, 'c, 'w) dataarray" where
  "build_clipped inp idx_min idx_max coord =
     (if Suc (length coord) \<noteq> length (da_dims inp) then Inl ValueError
      else Inr \<lparr>da_time = py_slice idx_min idx_max (da_time inp),
                da_time_attrs = da_time_attrs inp,
                da_data = py_slice idx_min idx_max (da_data inp),
                da_dims = da_dims inp,
                da_coords = map (\<lambda>(k, d). (k, \<lparr>coord_data = d, coord_attrs = []\<rparr>))
                              (zip (tl (da_dims inp)) coord),
                da_attrs = da_attrs inp\<rparr>)"

text \<open>
  \<^verbatim>\<open>time_clip(inp, tint)\<close>. Two functions of external libraries are parameters:
  \<open>parse\<close> is \<^verbatim>\<open>dateutil.parser.parse\<close> (a string to a datetime) and \<open>to_dt64\<close> is
  astropy's \<^verbatim>\<open>Time(_, format="datetime").datetime64\<close>; either may raise. The bounds are
  picked first (lines 39 to 53); in the numpy branch \<^verbatim>\<open>tint.time\<close> is read from an array,
  which has no such attribute.
\<close>

definition tint_bounds ::
  "(string \<Rightarrow> py_error + int) \<Rightarrow> ('v, 'c, 'w) py_tint \<Rightarrow> py_error + (py_time \<times> py_time)" where
  "tint_bounds parse tint =
     (case tint of
        TintDataArray t \<Rightarrow>
          (if da_time t = [] then Inl IndexError
           else Inr (NpDT64 (hd (da_time t)), NpDT64 (last (da_time t))))
      | TintNdarray els \<Rightarrow>
          (if els = [] then Inl IndexError
           else case (hd els, last els) of
                  (PyDatetime _, PyDatetime _) \<Rightarrow> Inl AttributeError
                | _ \<Rightarrow> Inl TypeError)
      | TintList strs \<Rightarrow>
          (if strs = [] then Inl IndexError
           else case parse (hd strs) of
                  Inl e \<Rightarrow> Inl e
                | Inr t_start \<Rightarrow>
                    (case parse (last strs) of
                       Inl e \<Rightarrow> Inl e
                     | Inr t_stop \<Rightarrow> Inr (PyDT t_start, PyDT t_stop)))
      | TintOther \<Rightarrow> Inl TypeError)"

definition time_clip ::
  "(string \<Rightarrow> py_error + int) \<Rightarrow> (py_time \<Rightarrow> py_error + int) \<Rightarrow> ('v, 'c, 'w) py_inp
     \<Rightarrow> ('v, 'c, 'w) py_tint \<Rightarrow> py_error + ('v, 'c, 'w) dataarray" where
  "time_clip parse to_dt64 inp tint =
     (case inp of
        InpDataArray d \<Rightarrow>
          (case tint_bounds parse tint of
             Inl e \<Rightarrow> Inl e
           | Inr (t_start, t_stop) \<Rightarrow>
               (case to_dt64 t_start of
                  Inl e \<Rightarrow> Inl e
                | Inr t0 \<Rightarrow>
                    (case to_dt64 t_stop of
                       Inl e \<Rightarrow> Inl e
                     | Inr t1 \<Rightarrow>
                         (let idx_min = bisect_left (da_time d) t0;
                              idx_max = bisect_right (da_time d) t1
                          in case (if da_coords d \<noteq> []
                                   then collect_coords (da_coords d) (tl (da_dims d))
                                   else Inr []) of
                               Inl e \<Rightarrow> Inl e
                             | Inr coord \<Rightarrow> build_clipped d idx_min idx_max coord))))
      | _ \<Rightarrow> Inl TypeError)"





section \<open>mms.get_feeps_omni\<close>




























section \<open>pyrf.medfilt\<close>




text \<open>The argument \<^verbatim>\<open>n_pts\<close>: a Python int, a Python float, or anything else.\<close>

datatype n_pts = NInt int | NFloat fl | NOther

text \<open>
  Lines 62 to 66: \<^verbatim>\<open>np.floor(n_pts).astype(int)\<close> for a float, then one is added to an
  even value. The cast of a float that is NaN, infinite or outside the range of int64 is
  left to the platform by numpy; it is the parameter \<open>cast\<close>.
\<close>

definition floor_int :: "(fl \<Rightarrow> int) \<Rightarrow> fl \<Rightarrow> int" where
  "floor_int cast v =
     (case v of
        Fin r \<Rightarrow> if - (2 ^ 63) \<le> \<lfloor>r\<rfloor> \<and> \<lfloor>r\<rfloor> < 2 ^ 63 then \<lfloor>r\<rfloor> else cast v
      | _ \<Rightarrow> cast v)"

definition odd_window :: "int \<Rightarrow> int" where
  "odd_window k = (if k mod 2 = 0 then k + 1 else k)"

definition window :: "(fl \<Rightarrow> int) \<Rightarrow> n_pts \<Rightarrow> py_error + int" where
  "window cast n =
     (case n of
        NOther \<Rightarrow> Inl TypeError
      | NFloat v \<Rightarrow> Inr (odd_window (floor_int cast v))
      | NInt k \<Rightarrow> Inr (odd_window k))"












section \<open>Arguments updated in place: match_phibe_v and calculate_epsilon\<close>








section \<open>pyrf.rotate_tensor, field-aligned path\<close>




















section \<open>Facts about float64 rounding\<close>

lemma round_even_of_int: "round_even (of_int n) = n"
  by (simp add: round_even_def)

lemma f64_expo_le:
  assumes "m \<noteq> 0" "\<bar>m\<bar> < 2 ^ 53" "- 1074 \<le> e"
  shows "f64_expo (of_int m * 2 powr of_int e) \<le> e"
proof -
  let ?x = "of_int m * 2 powr of_int e :: real"
  have pos: "0 < \<bar>?x\<bar>" using assms(1) by simp
  have "\<bar>?x\<bar> = \<bar>of_int m\<bar> * 2 powr of_int e" by (simp add: abs_mult)
  also have "\<dots> < 2 ^ 53 * 2 powr of_int e"
  proof -
    have "\<bar>of_int m :: real\<bar> < 2 ^ 53" using assms(2)
      by (metis of_int_abs of_int_less_iff of_int_numeral of_int_power)
    then show ?thesis by simp
  qed
  also have "\<dots> = 2 powr (of_int (e + 53))" by (simp add: powr_add powr_realpow)
  finally have lt: "\<bar>?x\<bar> < 2 powr of_int (e + 53)" .
  have "\<lfloor>log 2 \<bar>?x\<bar>\<rfloor> < e + 53"
  proof -
    have "log 2 \<bar>?x\<bar> < of_int (e + 53)" using lt pos by (simp add: log_less_iff)
    then show ?thesis by (simp add: floor_less_iff)
  qed
  then show ?thesis using assms(3) by (simp add: f64_expo_def)
qed

lemma f64_round_exact:
  assumes "\<bar>m\<bar> < 2 ^ 53" "- 1074 \<le> e" "e \<le> 971"
  shows "f64_round (of_int m * 2 powr of_int e) = Fin (of_int m * 2 powr of_int e)"
proof (cases "m = 0")
  case True
  then show ?thesis by (simp add: f64_round_def)
next
  case False
  let ?x = "of_int m * 2 powr of_int e :: real"
  define E where "E = f64_expo ?x"
  have Ee: "E \<le> e" unfolding E_def using f64_expo_le[OF False assms(1,2)] .
  define d where "d = nat (e - E)"
  have q: "?x / 2 powr of_int E = of_int (m * 2 ^ d)"
  proof -
    have "2 powr of_int e / 2 powr of_int E = (2::real) powr (of_int e - of_int E)"
      by (simp add: powr_diff)
    also have "\<dots> = 2 powr real d" using Ee by (simp add: d_def)
    also have "\<dots> = 2 ^ d" by (simp add: powr_realpow)
    finally have "2 powr of_int e / 2 powr of_int E = (2::real) ^ d" .
    then have "?x / 2 powr of_int E = of_int m * 2 ^ d"
      by (metis times_divide_eq_right)
    then show ?thesis by simp
  qed
  have y: "of_int (round_even (?x / 2 powr of_int E)) * 2 powr of_int E = ?x"
  proof -
    have "of_int (round_even (?x / 2 powr of_int E)) * 2 powr of_int E
          = (?x / 2 powr of_int E) * 2 powr of_int E"
      by (simp only: q round_even_of_int)
    then show ?thesis by simp
  qed
  have small: "\<bar>?x\<bar> < 2 powr 1024"
  proof -
    have "\<bar>?x\<bar> = \<bar>of_int m\<bar> * 2 powr of_int e" by (simp add: abs_mult)
    also have "\<dots> < 2 ^ 53 * 2 powr of_int e"
    proof -
      have "\<bar>of_int m :: real\<bar> < 2 ^ 53" using assms(1)
        by (metis of_int_abs of_int_less_iff of_int_numeral of_int_power)
      then show ?thesis by simp
    qed
    also have "\<dots> \<le> 2 ^ 53 * 2 powr 971"
    proof -
      have "(2::real) powr of_int e \<le> 2 powr 971" using assms(3) by (intro powr_mono) simp_all
      then show ?thesis by (intro mult_left_mono) simp_all
    qed
    also have "\<dots> = 2 powr 1024"
    proof -
      have "(2::real) powr 1024 = 2 powr (53 + 971)" by simp
      also have "\<dots> = 2 powr 53 * 2 powr 971" by (rule powr_add)
      also have "(2::real) powr 53 = 2 ^ 53" by (simp add: powr_realpow[symmetric])
      finally show ?thesis by simp
    qed
    finally show ?thesis .
  qed
  have x0: "?x \<noteq> 0" using False by simp
  show ?thesis
    unfolding f64_round_def using x0 small y by (simp add: Let_def E_def[symmetric])
qed

lemma f64_round_int: "\<bar>k\<bar> < 2 ^ 53 \<Longrightarrow> f64_round (of_int k) = Fin (of_int k)"
  using f64_round_exact[of k 0] by simp

lemma f64_round_numeral [simp]:
  "numeral n < (2::int) ^ 53 \<Longrightarrow> f64_round (numeral n) = Fin (numeral n)"
  using f64_round_int[of "numeral n"] by simp

lemma f64_round_neg_numeral [simp]:
  "numeral n < (2::int) ^ 53 \<Longrightarrow> f64_round (- numeral n) = Fin (- numeral n)"
  using f64_round_int[of "- numeral n"] by simp

lemma f64_round_0 [simp]: "f64_round 0 = Fin 0" by (simp add: f64_round_def)
lemma f64_round_1 [simp]: "f64_round 1 = Fin 1" using f64_round_int[of 1] by simp

section \<open>Properties of mean_bins and median_bins\<close>

lemma sort_le_refl: "sort_le a a" by (cases a) auto
lemma sort_le_total: "sort_le a b \<or> sort_le b a" by (cases a; cases b) auto
lemma sort_le_trans: "sort_le a b \<Longrightarrow> sort_le b c \<Longrightarrow> sort_le a c"
  by (cases a; cases b; cases c) auto

lemma set_np_insort: "set (np_insort a xs) = insert a (set xs)"
  by (induction xs) auto

lemma sorted_np_insort: "sorted_wrt sort_le xs \<Longrightarrow> sorted_wrt sort_le (np_insort a xs)"
  using sort_le_total sort_le_trans by (induction xs) (auto simp: set_np_insort)

lemma sorted_np_sort: "sorted_wrt sort_le (np_sort xs)"
  unfolding np_sort_def by (induction xs) (auto intro: sorted_np_insort)

lemma set_np_sort: "set (np_sort xs) = set xs"
  unfolding np_sort_def by (induction xs) (auto simp: set_np_insort)

lemma length_np_insort: "length (np_insort a xs) = Suc (length xs)"
  by (induction xs) auto

lemma length_np_sort: "length (np_sort xs) = length xs"
  unfolding np_sort_def by (induction xs) (auto simp: length_np_insort)

lemma hd_le_last_sorted: "sorted_wrt sort_le s \<Longrightarrow> s \<noteq> [] \<Longrightarrow> sort_le (hd s) (last s)"
  by (cases s) (auto simp: sort_le_refl)

lemma hd_le_last_np_sort: "x \<noteq> [] \<Longrightarrow> sort_le (hd (np_sort x)) (last (np_sort x))"
  by (metis hd_le_last_sorted sorted_np_sort set_np_sort set_empty)


lemma f64_expo_subnormal:
  assumes "q \<noteq> 0" "\<bar>q\<bar> < 2 ^ 52"
  shows "f64_expo (q * 2 powr (- 1074)) = - 1074"
proof -
  let ?x = "q * 2 powr (- 1074)"
  have pos: "0 < \<bar>?x\<bar>" using assms(1) by simp
  have "\<bar>?x\<bar> = \<bar>q\<bar> * 2 powr (- 1074)" by (simp add: abs_mult)
  also have "\<dots> < 2 ^ 52 * 2 powr (- 1074)" using assms(2) by simp
  also have "\<dots> = 2 powr (- 1022)"
  proof -
    have "(2::real) powr (- 1022) = 2 powr (52 + (- 1074))" by simp
    also have "\<dots> = 2 powr 52 * 2 powr (- 1074)" by (rule powr_add)
    also have "(2::real) powr 52 = 2 ^ 52" by (simp add: powr_realpow[symmetric])
    finally show ?thesis by simp
  qed
  finally have "\<bar>?x\<bar> < 2 powr of_int (- 1022)" by simp
  then have "log 2 \<bar>?x\<bar> < of_int (- 1022)" using pos by (simp add: log_less_iff)
  then have "\<lfloor>log 2 \<bar>?x\<bar>\<rfloor> < - 1022" by (simp add: floor_less_iff)
  then show ?thesis unfolding f64_expo_def by linarith
qed

lemma f64_round_subnormal:
  assumes "q \<noteq> 0" "\<bar>q\<bar> < 2 ^ 52"
  shows "f64_round (q * 2 powr (- 1074)) = Fin (of_int (round_even q) * 2 powr (- 1074))"
proof -
  let ?u = "(2::real) powr (- 1074)"
  have e: "f64_expo (q * ?u) = - 1074" using assms by (rule f64_expo_subnormal)
  have q: "q * ?u / ?u = q" by simp
  have r: "\<bar>real_of_int (round_even q)\<bar> \<le> \<bar>q\<bar> + 1"
    unfolding round_even_def Let_def by (auto simp: abs_if) linarith+
  have "\<bar>of_int (round_even q) * ?u\<bar> = \<bar>real_of_int (round_even q)\<bar> * ?u" by (simp add: abs_mult)
  also have "\<dots> \<le> (\<bar>q\<bar> + 1) * ?u" using r by (intro mult_right_mono) simp_all
  also have "\<dots> < (2 ^ 52 + 1) * ?u" using assms(2) by simp
  also have "\<dots> \<le> 2 ^ 53 * 2 powr 0" by (intro mult_mono powr_mono) simp_all
  also have "\<dots> < 2 powr 1024"
  proof -
    have "(2::real) ^ 53 = 2 powr 53" by (simp add: powr_realpow[symmetric])
    moreover have "(2::real) powr 53 < 2 powr 1024" by (intro powr_less_mono) simp_all
    ultimately show ?thesis by simp
  qed
  finally have small: "\<not> 2 powr 1024 \<le> \<bar>of_int (round_even q) * ?u\<bar>" by simp
  have x0: "q * ?u \<noteq> 0" using assms(1) by simp
  show ?thesis
    unfolding f64_round_def using x0 small by (simp only: e Let_def q if_False of_int_minus of_int_numeral)
qed

lemma round_even_3_2: "round_even (3 / 2) = 2"
  by (simp add: round_even_def)


lemma f64_round_units:
  "\<bar>m\<bar> < 2 ^ 53 \<Longrightarrow> f64_round (of_int m * 2 powr (- 1074)) = Fin (of_int m * 2 powr (- 1074))"
  using f64_round_exact[of m "- 1074"] by simp

lemma np_sort_subnormal_x: "np_sort subnormal_x = subnormal_x"
  by (simp add: np_sort_def subnormal_x_def)

lemma subnormal_delta:
  "fsub (Fin (15 * 2 powr (- 1074))) (Fin 0) = Fin (15 * 2 powr (- 1074))"
  using f64_round_units[of 15] by (simp add: fsub_def)

lemma subnormal_step:
  "fdiv (Fin (15 * 2 powr (- 1074))) (Fin 10) = Fin (2 * 2 powr (- 1074))"
proof -
  have "f64_round (3 / 2 * 2 powr (- 1074)) = Fin (of_int (round_even (3 / 2)) * 2 powr (- 1074))"
    by (rule f64_round_subnormal) simp_all
  then show ?thesis by (simp add: round_even_3_2)
qed

lemma subnormal_edge:
  assumes "k < 10"
  shows "linspace_at (Fin 0) (Fin (15 * 2 powr (- 1074))) 10 k
         = Fin (of_int (2 * int k) * 2 powr (- 1074))"
proof -
  have "\<bar>2 * int k\<bar> < 2 ^ 53" using assms by simp
  then have r: "f64_round (of_int (2 * int k) * 2 powr (- 1074)) = Fin (of_int (2 * int k) * 2 powr (- 1074))"
    by (rule f64_round_units)
  have m: "fmul (Fin (real k)) (Fin (2 * 2 powr (- 1074))) = Fin (of_int (2 * int k) * 2 powr (- 1074))"
  proof -
    have "real k * (2 * 2 powr (- 1074)) = of_int (2 * int k) * 2 powr (- 1074)" by simp
    then show ?thesis using r by (simp only: fmul.simps)
  qed
  have a: "fadd (Fin (of_int (2 * int k) * 2 powr (- 1074))) (Fin 0) = Fin (of_int (2 * int k) * 2 powr (- 1074))"
    using r by (simp only: fadd.simps add_0_right)
  have st: "fdiv (Fin (15 * 2 powr (- 1074))) (Fin (real (10::nat))) = Fin (2 * 2 powr (- 1074))"
    using subnormal_step by simp
  have "linspace_at (Fin 0) (Fin (15 * 2 powr (- 1074))) 10 k
        = fadd (fmul (Fin (real k)) (Fin (2 * 2 powr (- 1074)))) (Fin 0)"
    unfolding linspace_at_def Let_def subnormal_delta st using assms by simp
  then show ?thesis by (simp only: m a)
qed

lemma linspace_nth: "k \<le> n \<Longrightarrow> linspace a b n ! k = linspace_at a b n k"
  unfolding linspace_def by (metis add_0 le_imp_less_Suc nth_map_upt diff_zero)

lemma subnormal_edges:
  "linspace (Fin 0) (Fin (15 * 2 powr (- 1074))) 10 ! 7 = Fin (14 * 2 powr (- 1074))"
  "linspace (Fin 0) (Fin (15 * 2 powr (- 1074))) 10 ! 8 = Fin (16 * 2 powr (- 1074))"
  "linspace (Fin 0) (Fin (15 * 2 powr (- 1074))) 10 ! 10 = Fin (15 * 2 powr (- 1074))"
  using subnormal_edge[of 7] subnormal_edge[of 8]
  by (simp_all add: linspace_nth) (simp add: linspace_at_def)

lemma subnormal_bin7:
  "bin_idx subnormal_x (linspace (Fin 0) (Fin (15 * 2 powr (- 1074))) 10) 7 = [1]"
  by (simp add: bin_idx_def subnormal_x_def subnormal_edges upt_rec numeral_2_eq_2 flip: numeral_2_eq_2)

lemma fless_irrefl: "\<not> fless a a" by (cases a) auto

lemma bins_body_data:
  assumes "bins_body agg sd x y bins = Inr out" "i < nat bins"
  shows "out_data out ! i = agg (y_bins x y (linspace (hd (np_sort x)) (last (np_sort x)) (nat bins)) i)"
    and "out_sigma out ! i = sd (y_bins x y (linspace (hd (np_sort x)) (last (np_sort x)) (nat bins)) i)"
  using assms by (auto simp: bins_body_def Let_def split: if_splits)

lemma fin_edges_mono:
  assumes fin: "\<forall>k\<le>n. \<exists>r. e ! k = Fin r"
    and mono: "\<forall>k<n. \<not> fless (e ! Suc k) (e ! k)"
  shows "k \<le> l \<Longrightarrow> l \<le> n \<Longrightarrow> \<not> fless (e ! l) (e ! k)"
proof (induction l)
  case 0
  then show ?case by (simp add: fless_irrefl)
next
  case (Suc l)
  show ?case
  proof (cases "k = Suc l")
    case True
    then show ?thesis by (simp add: fless_irrefl)
  next
    case False
    then have kl: "k \<le> l" "l \<le> n" "l < n" using Suc.prems by simp_all
    obtain a b c where abc: "e ! k = Fin a" "e ! l = Fin b" "e ! Suc l = Fin c"
      using fin Suc.prems kl by (metis le_trans)
    have "\<not> fless (e ! l) (e ! k)" using Suc.IH kl by simp
    moreover have "\<not> fless (e ! Suc l) (e ! l)" using mono kl by simp
    ultimately show ?thesis using abc by simp
  qed
qed

lemma first_edge_is_start:
  assumes "0 < n" "is_f64 start" "linspace_at start stop n 0 = Fin r"
  shows "linspace_at start stop n 0 = start"
proof -
  have r0: "fdiv (Fin 0) (Fin (real n)) = Fin 0" using assms(1) by simp
  have z: "\<And>v w. fadd (fmul (Fin 0) v) w = Fin r \<Longrightarrow> is_f64 w \<Longrightarrow> fadd (fmul (Fin 0) v) w = w"
  proof -
    fix v w assume h: "fadd (fmul (Fin 0) v) w = Fin r" and f: "is_f64 w"
    show "fadd (fmul (Fin 0) v) w = w"
    proof (cases v)
      case (Fin s)
      then show ?thesis using h f by (cases w) (simp_all add: is_f64_def)
    qed (use h in \<open>simp_all add: inf_signed_def\<close>)
  qed
  show ?thesis
    using assms z[of "fsub stop start" start] z[of "fdiv (fsub stop start) (Fin (real n))" start]
    by (auto simp: linspace_at_def Let_def r0 split: if_splits)
qed


lemma np_sort_012: "np_sort [Fin 0, Fin 1, Fin 2] = [Fin 0, Fin 1, Fin 2]"
  by (simp add: np_sort_def)

lemma linspace_02: "linspace (Fin 0) (Fin 2) (Suc 0) = [Fin 0, Fin 2]"
  by (simp add: linspace_def linspace_at_def fsub_def Let_def)

lemma sel_012:
  "filter (\<lambda>j. fless ([Fin 0, Fin 2] ! 0) ([Fin 0, Fin 1, Fin 2] ! j)
                \<and> fless ([Fin 0, Fin 1, Fin 2] ! j) ([Fin 0, Fin 2] ! Suc 0)) [0..<length [Fin 0, Fin 1, Fin 2]]
   = [1]"
  by (simp add: upt_rec numeral_3_eq_3)

lemma seq_mean_3: "seq_mean [Fin 3] = Fin 3" by (simp add: seq_mean_def)

lemma seq_std_3: "seq_std [Fin 3] = Fin 0" by (simp add: seq_std_def seq_mean_def fsub_def Let_def)

lemma np_median_3: "np_median [Fin 3] = Fin 3" by (simp add: np_median_def np_sort_def)

lemma bin_centres_02: "bin_centres [Fin 0, Fin 2] = [Fin 1]"
  by (simp add: bin_centres_def np_diff_def np_median_def np_sort_def fsub_def)

text \<open>
  The claim as stated fails at \<^verbatim>\<open>x = [0.0, 7.4e-323]\<close>, \<^verbatim>\<open>bins = 10\<close>: the step
  \<open>1.5\<close> units rounds to \<open>2\<close> units, the edges are \<open>0, 2, \<dots>, 18, 15\<close> units, and the
  maximum of \<open>x\<close>, which is also the last edge, lies strictly between edges 7 and 8, so
  bin 7 takes its median over it.
\<close>

theorem bins_max_in_bin_counterexample:
  "subnormal_x ! 1 = last (np_sort subnormal_x)
   \<and> subnormal_x ! 1 = linspace (hd (np_sort subnormal_x)) (last (np_sort subnormal_x)) 10 ! 10
   \<and> 1 \<in> set (bin_idx subnormal_x (linspace (hd (np_sort subnormal_x)) (last (np_sort subnormal_x)) 10) 7)
   \<and> \<not> isl (median_bins seq_std (Some subnormal_x) None 10)
   \<and> out_data (projr (median_bins seq_std (Some subnormal_x) None 10)) ! 7 = Fin (15 * 2 powr (- 1074))"
proof -
  have hl: "hd (np_sort subnormal_x) = Fin 0" "last (np_sort subnormal_x) = Fin (15 * 2 powr (- 1074))"
    by (simp_all add: np_sort_subnormal_x) (simp_all add: subnormal_x_def)
  have x1: "subnormal_x ! 1 = Fin (15 * 2 powr (- 1074))" by (simp add: subnormal_x_def)
  have med: "np_median [Fin (15 * 2 powr (- 1074))] = Fin (15 * 2 powr (- 1074))"
    by (simp add: np_median_def np_sort_def)
  have yb: "y_bins subnormal_x subnormal_x (linspace (Fin 0) (Fin (15 * 2 powr (- 1074))) 10) 7
            = [Fin (15 * 2 powr (- 1074))]"
    by (simp add: y_bins_def subnormal_bin7) (simp add: subnormal_x_def)
  have run: "median_bins seq_std (Some subnormal_x) None 10
       = Inr \<lparr>out_bins = bin_centres (linspace (Fin 0) (Fin (15 * 2 powr (- 1074))) 10),
              out_data = map (\<lambda>i. np_median (y_bins subnormal_x subnormal_x (linspace (Fin 0) (Fin (15 * 2 powr (- 1074))) 10) i)) [0..<10],
              out_sigma = map (\<lambda>i. seq_std (y_bins subnormal_x subnormal_x (linspace (Fin 0) (Fin (15 * 2 powr (- 1074))) 10) i)) [0..<10]\<rparr>"
    by (simp add: median_bins_def bins_body_def Let_def hl) (simp add: subnormal_x_def)
  show ?thesis
    unfolding hl x1 run by (simp add: subnormal_edges subnormal_bin7 yb med)
qed

text \<open>
  C8 (as amended). In \<^verbatim>\<open>mean_bins\<close> and \<^verbatim>\<open>median_bins\<close> bin \<open>i\<close> selects exactly
  the indices \<open>j\<close> with \<open>x_edge[i] < x[j] < x_edge[i+1]\<close>, both comparisons strict, so a
  sample equal to one of the two edges of a bin is not in that bin, and each bin's mean,
  median and standard deviation are taken over the absolute values of \<open>y\<close> at exactly
  the selected indices. When the computed edges are finite and non-decreasing (and the
  entries of \<open>x\<close> are float64 values), a sample equal to any edge, in particular to the
  minimum or the maximum of \<open>x\<close>, is in no bin.
\<close>

theorem bins_strict_membership:
  assumes "i < nat bins"
    and "x_edge = linspace (hd (np_sort xd)) (last (np_sort xd)) (nat bins)"
    and "yd = (case y of None \<Rightarrow> xd | Some v \<Rightarrow> v)"
    and "sel = filter (\<lambda>j. fless (x_edge ! i) (xd ! j) \<and> fless (xd ! j) (x_edge ! Suc i)) [0..<length xd]"
  shows "(\<forall>j<length xd. xd ! j = x_edge ! i \<or> xd ! j = x_edge ! Suc i \<longrightarrow> j \<notin> set sel)
    \<and> ((\<forall>v\<in>set xd. is_f64 v) \<and> (\<forall>k\<le>nat bins. \<exists>r. x_edge ! k = Fin r)
          \<and> (\<forall>k<nat bins. \<not> fless (x_edge ! Suc k) (x_edge ! k))
        \<longrightarrow> (\<forall>j<length xd. (\<exists>k\<le>nat bins. xd ! j = x_edge ! k) \<or> xd ! j = hd (np_sort xd)
                  \<or> xd ! j = last (np_sort xd) \<longrightarrow> j \<notin> set sel))
    \<and> (\<forall>b m out. mean_bins np_mean np_std (Some xd) y bins = Inr (b, m, out) \<longrightarrow>
          m ! i = np_mean (map (\<lambda>j. fabs (yd ! j)) sel)
          \<and> out_sigma out ! i = np_std (map (\<lambda>j. fabs (yd ! j)) sel))
    \<and> (\<forall>out. median_bins np_std (Some xd) y bins = Inr out \<longrightarrow>
          out_data out ! i = np_median (map (\<lambda>j. fabs (yd ! j)) sel)
          \<and> out_sigma out ! i = np_std (map (\<lambda>j. fabs (yd ! j)) sel))"
proof (intro conjI allI impI)
  fix j assume "j < length xd" "xd ! j = x_edge ! i \<or> xd ! j = x_edge ! Suc i"
  then show "j \<notin> set sel" using assms(4) by (auto simp: fless_irrefl)
next
  let ?a = "hd (np_sort xd)" and ?b = "last (np_sort xd)" and ?n = "nat bins"
  fix j
  assume h: "(\<forall>v\<in>set xd. is_f64 v) \<and> (\<forall>k\<le>nat bins. \<exists>r. x_edge ! k = Fin r)
          \<and> (\<forall>k<nat bins. \<not> fless (x_edge ! Suc k) (x_edge ! k))"
    and j: "j < length xd"
    and c: "(\<exists>k\<le>nat bins. xd ! j = x_edge ! k) \<or> xd ! j = hd (np_sort xd) \<or> xd ! j = last (np_sort xd)"
  have fin: "\<forall>k\<le>?n. \<exists>r. x_edge ! k = Fin r" and mono: "\<forall>k<?n. \<not> fless (x_edge ! Suc k) (x_edge ! k)"
    using h by simp_all
  have n0: "0 < ?n" using assms(1) by simp
  have ne: "xd \<noteq> []" using j by auto
  have "?a \<in> set (np_sort xd)" using ne by (metis hd_in_set set_np_sort set_empty)
  then have fa: "is_f64 ?a" using h by (simp add: set_np_sort)
  have e0: "x_edge ! 0 = ?a"
  proof -
    obtain r where "x_edge ! 0 = Fin r" using fin by blast
    then have "linspace_at ?a ?b ?n 0 = Fin r" using assms(2) by (simp add: linspace_nth)
    from first_edge_is_start[OF n0 fa this] show ?thesis using assms(2) by (simp add: linspace_nth)
  qed
  have en: "x_edge ! ?n = ?b" using assms(2) n0 by (simp add: linspace_nth linspace_at_def)
  from c e0 en obtain k where k: "k \<le> ?n" "xd ! j = x_edge ! k" by (metis le0 le_refl)
  show "j \<notin> set sel"
  proof
    assume "j \<in> set sel"
    then have lo: "fless (x_edge ! i) (x_edge ! k)" and hi: "fless (x_edge ! k) (x_edge ! Suc i)"
      using assms(4) k by simp_all
    show False
    proof (cases "k \<le> i")
      case True
      with fin_edges_mono[OF fin mono, of k i] assms(1) lo show False by simp
    next
      case False
      then have "Suc i \<le> k" by simp
      with fin_edges_mono[OF fin mono, of "Suc i" k] k(1) hi show False by simp
    qed
  qed
next
  fix b m out assume "mean_bins np_mean np_std (Some xd) y bins = Inr (b, m, out)"
  then have "bins_body np_mean np_std xd yd bins = Inr out" "m = out_data out"
    using assms(3) by (auto simp: mean_bins_def split: sum.splits)
  then show "m ! i = np_mean (map (\<lambda>j. fabs (yd ! j)) sel)"
    and "out_sigma out ! i = np_std (map (\<lambda>j. fabs (yd ! j)) sel)"
    using bins_body_data[of np_mean np_std xd yd bins out i] assms(1,2,4)
    by (simp_all add: y_bins_def bin_idx_def)
next
  fix out assume "median_bins np_std (Some xd) y bins = Inr out"
  then have "bins_body np_median np_std xd yd bins = Inr out"
    using assms(3) by (auto simp: median_bins_def)
  then show "out_data out ! i = np_median (map (\<lambda>j. fabs (yd ! j)) sel)"
    and "out_sigma out ! i = np_std (map (\<lambda>j. fabs (yd ! j)) sel)"
    using bins_body_data[of np_median np_std xd yd bins out i] assms(1,2,4)
    by (simp_all add: y_bins_def bin_idx_def)
qed


theorem bins_strict_membership_witness:
  "mean_bins seq_mean seq_std (Some [Fin 0, Fin 1, Fin 2]) (Some [Fin 5, Fin (- 3), Fin 7]) 1
     = Inr ([Fin 1], [Fin 3], \<lparr>out_bins = [Fin 1], out_data = [Fin 3], out_sigma = [Fin 0]\<rparr>)
   \<and> median_bins seq_std (Some [Fin 0, Fin 1, Fin 2]) (Some [Fin 5, Fin (- 3), Fin 7]) 1
     = Inr \<lparr>out_bins = [Fin 1], out_data = [Fin 3], out_sigma = [Fin 0]\<rparr>
   \<and> 0 \<notin> set [1::nat] \<and> 2 \<notin> set [1::nat]
   \<and> [Fin 3] ! 0 = seq_mean (map (\<lambda>j. fabs ([Fin 5, Fin (- 3), Fin 7] ! j)) [1])
   \<and> [Fin 3] ! 0 = np_median (map (\<lambda>j. fabs ([Fin 5, Fin (- 3), Fin 7] ! j)) [1])"
proof -
  let ?x = "[Fin 0, Fin 1, Fin 2]" and ?y = "[Fin 5, Fin (- 3), Fin 7]"
  have h1: "(0::nat) < nat 1" by simp
  have h2: "[Fin 0, Fin 2] = linspace (hd (np_sort ?x)) (last (np_sort ?x)) (nat 1)"
    by (simp add: np_sort_012 linspace_02)
  have h3: "?y = (case Some ?y of None \<Rightarrow> ?x | Some v \<Rightarrow> v)" by simp
  have h4: "[1] = filter (\<lambda>j. fless ([Fin 0, Fin 2] ! 0) (?x ! j) \<and> fless (?x ! j) ([Fin 0, Fin 2] ! Suc 0)) [0..<length ?x]"
    by (simp only: sel_012)
  have yb: "y_bins ?x ?y [Fin 0, Fin 2] 0 = [Fin 3]"
    unfolding y_bins_def bin_idx_def sel_012 by simp
  have rm: "mean_bins seq_mean seq_std (Some ?x) (Some ?y) 1
     = Inr ([Fin 1], [Fin 3], \<lparr>out_bins = [Fin 1], out_data = [Fin 3], out_sigma = [Fin 0]\<rparr>)"
    by (simp add: mean_bins_def bins_body_def Let_def np_sort_012 linspace_02 yb seq_mean_3 seq_std_3 bin_centres_02)
  have rd: "median_bins seq_std (Some ?x) (Some ?y) 1
     = Inr \<lparr>out_bins = [Fin 1], out_data = [Fin 3], out_sigma = [Fin 0]\<rparr>"
    by (simp add: median_bins_def bins_body_def Let_def np_sort_012 linspace_02 yb np_median_3 seq_std_3 bin_centres_02)
  have f: "\<forall>v\<in>set ?x. is_f64 v" by (simp add: is_f64_def)
  have e: "\<forall>k\<le>nat 1. \<exists>r. [Fin 0, Fin 2] ! k = Fin r" by (auto simp: le_Suc_eq)
  have m: "\<forall>k<nat 1. \<not> fless ([Fin 0, Fin 2] ! Suc k) ([Fin 0, Fin 2] ! k)" by simp
  note t = bins_strict_membership[of 0 1 "[Fin 0, Fin 2]" ?x ?y "Some ?y" "[1]" seq_mean seq_std, OF h1 h2 h3 h4]
  from t have a: "\<forall>j<length ?x. (\<exists>k\<le>nat 1. ?x ! j = [Fin 0, Fin 2] ! k) \<or> ?x ! j = hd (np_sort ?x)
                  \<or> ?x ! j = last (np_sort ?x) \<longrightarrow> j \<notin> set [1::nat]"
    using f e m by blast
  from t rm have b: "[Fin 3] ! 0 = seq_mean (map (\<lambda>j. fabs (?y ! j)) [1])" by blast
  from t rd have c: "[Fin 3] ! 0 = np_median (map (\<lambda>j. fabs (?y ! j)) [1])" by fastforce
  from a have "0 \<notin> set [1::nat]" "2 \<notin> set [1::nat]" by (simp_all add: np_sort_012)
  then show ?thesis using rm rd b c by blast
qed

section \<open>Properties of time_clip and norm\<close>























text \<open>
  The numpy branch of \<^verbatim>\<open>time_clip\<close> (lines 42 to 47): an array of \<^verbatim>\<open>numpy.datetime64\<close>
  values is rejected with TypeError, and an array of \<^verbatim>\<open>datetime.datetime\<close> objects
  reaches \<^verbatim>\<open>tint.time\<close>, which an array does not have.
\<close>

lemma time_clip_ndarray_branch:
  "time_clip parse to_dt64 (InpDataArray d) (TintNdarray [Datetime64 a, Datetime64 b]) = Inl TypeError"
  "time_clip parse to_dt64 (InpDataArray d) (TintNdarray [PyDatetime a, PyDatetime b]) = Inl AttributeError"
  by (simp_all add: time_clip_def tint_bounds_def)

section \<open>Properties of get_feeps_omni\<close>




























section \<open>Properties of medfilt\<close>

lemma odd_window_odd: "odd (odd_window k)"
  by (simp add: odd_window_def) presburger

lemma window_odd: "window cast n = Inr k \<Longrightarrow> odd k"
  by (auto simp: window_def odd_window_odd split: n_pts.splits)








section \<open>What match_phibe_v and calculate_epsilon leave in their arguments\<close>



section \<open>Properties of rotate_tensor\<close>







end
